theory Spec2Isabelle
  imports Main
begin

section \<open>Python runtime: errors, indexing, ranges, min and max, text of values\<close>

text \<open>
  The exceptions the program can raise. \<open>ValueError\<close> carries its message; the
  interpreter's own \<open>IndexError\<close> (a list index out of range) carries none here.
\<close>

datatype error = ValueError string | IndexError

text \<open>\<open>xs[i]\<close> on a Python list: a negative index counts from the end, and an index
  outside the list raises \<open>IndexError\<close>.\<close>

definition py_index :: "'a list \<Rightarrow> int \<Rightarrow> error + 'a" where
  "py_index xs i =
     (if 0 \<le> i \<and> i < int (length xs) then Inr (xs ! nat i)
      else if i < 0 \<and> - int (length xs) \<le> i then Inr (xs ! nat (int (length xs) + i))
      else Inl IndexError)"

text \<open>\<open>range(n)\<close>: the integers \<open>0, ..., n - 1\<close>, none when \<open>n \<le> 0\<close>.\<close>

definition py_range :: "int \<Rightarrow> int list" where
  "py_range n = [0..n - 1]"

text \<open>\<open>min(xs)\<close> and \<open>max(xs)\<close> on a list of integers; both raise \<open>ValueError\<close>
  on an empty list (the wording of that message is the interpreter's; \<open>summary\<close> never
  reaches it, see \<open>summary_empty\<close> below).\<close>

definition py_min :: "int list \<Rightarrow> error + int" where
  "py_min xs =
     (case xs of
        [] \<Rightarrow> Inl (ValueError ''min() arg is an empty sequence'')
      | x # r \<Rightarrow> Inr (fold min r x))"

definition py_max :: "int list \<Rightarrow> error + int" where
  "py_max xs =
     (case xs of
        [] \<Rightarrow> Inl (ValueError ''max() arg is an empty sequence'')
      | x # r \<Rightarrow> Inr (fold max r x))"

text \<open>\<open>str\<close> of an integer: decimal digits, with a leading minus sign below zero.\<close>

fun str_nat :: "nat \<Rightarrow> string" where
  "str_nat n =
     (if n < 10 then [''0123456789'' ! n]
      else str_nat (n div 10) @ [''0123456789'' ! (n mod 10)])"

declare str_nat.simps [simp del]

definition str_int :: "int \<Rightarrow> string" where
  "str_int i = (if i < 0 then ''-'' @ str_nat (nat (- i)) else str_nat (nat i))"

text \<open>\<open>str\<close> of a pair of integers, \<open>(x, y)\<close>, and of a list of such pairs,
  \<open>[(a, b), (c, d)]\<close>.\<close>

definition str_pair :: "int \<times> int \<Rightarrow> string" where
  "str_pair p = ''('' @ str_int (fst p) @ '', '' @ str_int (snd p) @ '')''"

fun join :: "string \<Rightarrow> string list \<Rightarrow> string" where
  "join sep [] = []"
| "join sep [s] = s"
| "join sep (s # t # ss) = s @ sep @ join sep (t # ss)"

definition str_pairs :: "(int \<times> int) list \<Rightarrow> string" where
  "str_pairs ps = ''['' @ join '', '' (map str_pair ps) @ '']''"

text \<open>\<open>print(a, b, ...)\<close> writes the texts of its arguments separated by one space;
  the model keeps one entry per call, without the closing newline.\<close>

definition py_print :: "string list \<Rightarrow> string" where
  "py_print args = join '' '' args"

definition nl :: string where
  "nl = [CHR 0x0A]"

section \<open>Geometry\<close>

type_synonym Pos2D = "int \<times> int"

definition manhattan :: "Pos2D \<Rightarrow> Pos2D \<Rightarrow> int" where
  "manhattan a b = \<bar>fst a - fst b\<bar> + \<bar>snd a - snd b\<bar>"

definition neighbors_2d :: "Pos2D \<Rightarrow> Pos2D list" where
  "neighbors_2d p =
     (case p of (x, y) \<Rightarrow> [(x + 1, y), (x - 1, y), (x, y + 1), (x, y - 1)])"

section \<open>The polymer\<close>

record Polymer2D =
  coords :: "Pos2D list"

definition N :: "Polymer2D \<Rightarrow> int" where
  "N p = int (length (coords p))"

text \<open>The two messages of \<open>validate\<close>. The second is the f-string of the source, with
  the index pair and the two coordinates.\<close>

definition overlap_msg :: string where
  "overlap_msg = ''Invalid polymer: overlap detected (not self-avoiding).''"

definition bond_msg :: "int \<Rightarrow> int \<Rightarrow> Pos2D \<Rightarrow> Pos2D \<Rightarrow> string" where
  "bond_msg i j a b =
     ''Invalid polymer: broken bond at ('' @ str_int i @ '','' @ str_int j @ ''). '' @
     str_pair a @ '' -> '' @ str_pair b @ '' (must be Manhattan distance 1)''"

text \<open>The loop of \<open>validate\<close> over \<open>range(self.N - 1)\<close>: the first bond that is not
  of length 1 raises.\<close>

fun validate_bonds :: "Pos2D list \<Rightarrow> int list \<Rightarrow> error + unit" where
  "validate_bonds cs [] = Inr ()"
| "validate_bonds cs (i # r) =
     (case py_index cs i of
        Inl e \<Rightarrow> Inl e
      | Inr a \<Rightarrow>
          (case py_index cs (i + 1) of
             Inl e \<Rightarrow> Inl e
           | Inr b \<Rightarrow>
               if manhattan a b \<noteq> 1 then Inl (ValueError (bond_msg i (i + 1) a b))
               else validate_bonds cs r))"

definition validate :: "Polymer2D \<Rightarrow> error + unit" where
  "validate p =
     (if int (card (set (coords p))) \<noteq> N p then Inl (ValueError overlap_msg)
      else validate_bonds (coords p) (py_range (N p - 1)))"

definition bonds :: "Polymer2D \<Rightarrow> (int \<times> int) list" where
  "bonds p = map (\<lambda>i. (i, i + 1)) (py_range (N p - 1))"

text \<open>\<open>summary\<close>: the f-string evaluates its fields from left to right
  (\<open>self.N\<close>, \<open>self.coords[0]\<close>, \<open>self.coords[-1]\<close>, then the four
  \<open>min\<close> and \<open>max\<close>), and \<open>summary_text\<close> is the text it builds from them.\<close>

definition summary_text :: "int \<Rightarrow> Pos2D \<Rightarrow> Pos2D \<Rightarrow> int \<Rightarrow> int \<Rightarrow> int \<Rightarrow> int \<Rightarrow> string" where
  "summary_text n first lst xmin xmax ymin ymax =
     ''N = '' @ str_int n @ nl @
     ''First monomer: '' @ str_pair first @ nl @
     ''Last monomer : '' @ str_pair lst @ nl @
     ''x range: ['' @ str_int xmin @ '', '' @ str_int xmax @ '']'' @ nl @
     ''y range: ['' @ str_int ymin @ '', '' @ str_int ymax @ '']'' @ nl"

definition summary :: "Polymer2D \<Rightarrow> error + string" where
  "summary p =
     (let xs = map fst (coords p); ys = map snd (coords p) in
      (case py_index (coords p) 0 of Inl e \<Rightarrow> Inl e | Inr first \<Rightarrow>
      (case py_index (coords p) (- 1) of Inl e \<Rightarrow> Inl e | Inr lst \<Rightarrow>
      (case py_min xs of Inl e \<Rightarrow> Inl e | Inr xmin \<Rightarrow>
      (case py_max xs of Inl e \<Rightarrow> Inl e | Inr xmax \<Rightarrow>
      (case py_min ys of Inl e \<Rightarrow> Inl e | Inr ymin \<Rightarrow>
      (case py_max ys of Inl e \<Rightarrow> Inl e | Inr ymax \<Rightarrow>
         Inr (summary_text (N p) first lst xmin xmax ymin ymax))))))))"

section \<open>The initializer and the entry point\<close>

definition straight_chain :: "int \<Rightarrow> error + Polymer2D" where
  "straight_chain n =
     (let cs = map (\<lambda>i. (i, 0)) (py_range n);
          poly = \<lparr>coords = cs\<rparr>
      in case validate poly of Inl e \<Rightarrow> Inl e | Inr _ \<Rightarrow> Inr poly)"

text \<open>The first line \<open>main\<close> prints. The source file holds, between \<open>WEEK 1\<close> and
  \<open>2D\<close>, the three characters U+00E2, U+20AC, U+201D; they are given here as the
  bytes of their UTF-8 encoding.\<close>

definition header :: string where
  "header = ''WEEK 1 '' @
     [CHR 0xC3, CHR 0xA2, CHR 0xE2, CHR 0x82, CHR 0xAC, CHR 0xE2, CHR 0x80, CHR 0x9D] @
     '' 2D lattice polymer representation''"

text \<open>\<open>main\<close>, from the parsed argument \<open>args.N\<close> (20 when the flag is absent): what
  was printed, one entry per \<open>print\<close>, and how the run ended.\<close>

definition main :: "int \<Rightarrow> string list \<times> (error + unit)" where
  "main n =
     (case straight_chain n of
        Inl e \<Rightarrow> ([], Inl e)
      | Inr poly \<Rightarrow>
          (case summary poly of
             Inl e \<Rightarrow> ([header], Inl e)
           | Inr s \<Rightarrow>
               ([header,
                 s,
                 py_print [''Bonds (index pairs):'',
                           str_pairs (take 10 (bonds poly)),
                           if N poly > 11 then ''...'' else ''''],
                 ''Validation: OK ''],
                Inr ())))"

section \<open>Facts about the runtime functions\<close>

lemma py_index_in_range:
  "0 \<le> i \<Longrightarrow> i < int (length xs) \<Longrightarrow> py_index xs i = Inr (xs ! nat i)"
  by (simp add: py_index_def)

lemma py_index_empty: "py_index [] i = Inl IndexError"
  by (simp add: py_index_def)

lemma py_index_last: "xs \<noteq> [] \<Longrightarrow> py_index xs (- 1) = Inr (last xs)"
proof -
  assume ne: "xs \<noteq> []"
  then have "nat (int (length xs) - 1) = length xs - 1" and "1 \<le> length xs"
    by (simp_all add: Suc_le_eq)
  with ne show ?thesis
    by (simp add: py_index_def last_conv_nth)
qed

lemma py_index_first: "xs \<noteq> [] \<Longrightarrow> py_index xs 0 = Inr (hd xs)"
  by (simp add: py_index_def hd_conv_nth)

lemma card_set_eq_length: "card (set xs) = length xs \<longleftrightarrow> distinct xs"
  using card_distinct distinct_card by blast

lemma validate_bonds_ok_iff:
  "\<forall>i\<in>set ixs. 0 \<le> i \<and> i + 1 < int (length cs) \<Longrightarrow>
   validate_bonds cs ixs = Inr () \<longleftrightarrow>
     (\<forall>i\<in>set ixs. manhattan (cs ! nat i) (cs ! nat (i + 1)) = 1)"
  by (induction ixs) (auto simp: py_index_in_range)

lemma validate_bonds_first_bad:
  "\<forall>i\<in>set (pre @ [k]). 0 \<le> i \<and> i + 1 < int (length cs) \<Longrightarrow>
   \<forall>i\<in>set pre. manhattan (cs ! nat i) (cs ! nat (i + 1)) = 1 \<Longrightarrow>
   manhattan (cs ! nat k) (cs ! nat (k + 1)) \<noteq> 1 \<Longrightarrow>
   validate_bonds cs (pre @ k # post) =
     Inl (ValueError (bond_msg k (k + 1) (cs ! nat k) (cs ! nat (k + 1))))"
  by (induction pre) (auto simp: py_index_in_range)

lemma overlap_not_bond: "overlap_msg \<noteq> bond_msg i j a b"
  by (simp add: overlap_msg_def bond_msg_def)

lemma set_py_range: "set (py_range n) = {0..n - 1}"
  by (simp add: py_range_def)

lemma bond_indices_in_range:
  "\<forall>i\<in>set (py_range (int (length cs) - 1)). 0 \<le> i \<and> i + 1 < int (length cs)"
  by (auto simp: set_py_range)

lemma bonds_all_ok_iff:
  "(\<forall>i\<in>set (py_range (int (length cs) - 1)). manhattan (cs ! nat i) (cs ! nat (i + 1)) = 1)
   \<longleftrightarrow> (\<forall>k. Suc k < length cs \<longrightarrow> manhattan (cs ! k) (cs ! Suc k) = 1)"
proof
  assume L: "\<forall>i\<in>set (py_range (int (length cs) - 1)). manhattan (cs ! nat i) (cs ! nat (i + 1)) = 1"
  show "\<forall>k. Suc k < length cs \<longrightarrow> manhattan (cs ! k) (cs ! Suc k) = 1"
  proof (intro allI impI)
    fix k assume k: "Suc k < length cs"
    then have "int k \<in> set (py_range (int (length cs) - 1))"
      by (auto simp: set_py_range)
    with L have "manhattan (cs ! nat (int k)) (cs ! nat (int k + 1)) = 1"
      by blast
    moreover have "nat (int k + 1) = Suc k" by simp
    ultimately show "manhattan (cs ! k) (cs ! Suc k) = 1" by simp
  qed
next
  assume R: "\<forall>k. Suc k < length cs \<longrightarrow> manhattan (cs ! k) (cs ! Suc k) = 1"
  show "\<forall>i\<in>set (py_range (int (length cs) - 1)). manhattan (cs ! nat i) (cs ! nat (i + 1)) = 1"
  proof
    fix i assume "i \<in> set (py_range (int (length cs) - 1))"
    then have i: "0 \<le> i" "i + 1 < int (length cs)"
      by (auto simp: set_py_range)
    then have "Suc (nat i) < length cs" by linarith
    with R have "manhattan (cs ! nat i) (cs ! Suc (nat i)) = 1" by blast
    moreover from i have "nat (i + 1) = Suc (nat i)" by linarith
    ultimately show "manhattan (cs ! nat i) (cs ! nat (i + 1)) = 1" by simp
  qed
qed

lemma validate_ok_iff_aux:
  "validate p = Inr () \<longleftrightarrow>
     distinct (coords p) \<and>
     (\<forall>k. Suc k < length (coords p) \<longrightarrow> manhattan (coords p ! k) (coords p ! Suc k) = 1)"
proof (cases "distinct (coords p)")
  case False
  then show ?thesis
    by (simp add: validate_def N_def card_set_eq_length)
next
  case True
  then have "validate p = validate_bonds (coords p) (py_range (int (length (coords p)) - 1))"
    by (simp add: validate_def N_def distinct_card)
  with True show ?thesis
    by (simp add: validate_bonds_ok_iff [OF bond_indices_in_range] bonds_all_ok_iff)
qed

lemma validate_overlap:
  "\<not> distinct (coords p) \<Longrightarrow> validate p = Inl (ValueError overlap_msg)"
  by (simp add: validate_def N_def card_set_eq_length)

lemma validate_first_bad:
  assumes d: "distinct (coords p)"
    and k: "Suc k < length (coords p)"
    and bad: "manhattan (coords p ! k) (coords p ! Suc k) \<noteq> 1"
    and before: "\<forall>j<k. manhattan (coords p ! j) (coords p ! Suc j) = 1"
  shows "validate p =
     Inl (ValueError (bond_msg (int k) (int k + 1) (coords p ! k) (coords p ! Suc k)))"
proof -
  let ?cs = "coords p"
  let ?m = "int (length ?cs) - 1"
  have v: "validate p = validate_bonds ?cs (py_range ?m)"
    using d by (simp add: validate_def N_def distinct_card)
  have split: "py_range ?m = [0..int k - 1] @ int k # [int k + 1..?m - 1]"
    unfolding py_range_def using k by (intro upto_split3) auto
  have rng: "\<forall>i\<in>set ([0..int k - 1] @ [int k]). 0 \<le> i \<and> i + 1 < int (length ?cs)"
    using k by auto
  have pre: "\<forall>i\<in>set [0..int k - 1]. manhattan (?cs ! nat i) (?cs ! nat (i + 1)) = 1"
  proof
    fix i assume "i \<in> set [0..int k - 1]"
    then have i: "0 \<le> i" "i < int k" by auto
    then have "nat i < k" by linarith
    with before have "manhattan (?cs ! nat i) (?cs ! Suc (nat i)) = 1" by blast
    moreover from i have "nat (i + 1) = Suc (nat i)" by linarith
    ultimately show "manhattan (?cs ! nat i) (?cs ! nat (i + 1)) = 1" by simp
  qed
  have nk: "nat (int k + 1) = Suc k" by simp
  have bad': "manhattan (?cs ! nat (int k)) (?cs ! nat (int k + 1)) \<noteq> 1"
    using bad by (simp add: nk)
  from validate_bonds_first_bad [OF rng pre bad', of "[int k + 1..?m - 1]"]
  show ?thesis
    by (simp add: v split nk)
qed


lemma first_bad_exists:
  assumes "Suc k < length cs" and "manhattan (cs ! k) (cs ! Suc k) \<noteq> 1"
  shows "\<exists>i\<le>k. manhattan (cs ! i) (cs ! Suc i) \<noteq> 1 \<and>
           (\<forall>j<i. manhattan (cs ! j) (cs ! Suc j) = 1)"
proof -
  let ?bad = "\<lambda>i. manhattan (cs ! i) (cs ! Suc i) \<noteq> 1"
  from assms have "\<exists>i. ?bad i" by blast
  then obtain i where i: "?bad i" "\<forall>j<i. \<not> ?bad j"
    using exists_least_iff [of ?bad] by blast
  have "i \<le> k"
  proof (rule ccontr)
    assume "\<not> i \<le> k"
    then have "k < i" by simp
    with i(2) assms(2) show False by blast
  qed
  with i show ?thesis by blast
qed

lemma py_min_nonempty: "xs \<noteq> [] \<Longrightarrow> py_min xs = Inr (Min (set xs))"
  by (cases xs) (simp_all add: py_min_def Min.set_eq_fold del: set_simps)

lemma py_max_nonempty: "xs \<noteq> [] \<Longrightarrow> py_max xs = Inr (Max (set xs))"
  by (cases xs) (simp_all add: py_max_def Max.set_eq_fold del: set_simps)

lemma summary_empty: "coords p = [] \<Longrightarrow> summary p = Inl IndexError"
  by (simp add: summary_def py_index_empty)

lemma summary_nonempty:
  "coords p \<noteq> [] \<Longrightarrow>
   summary p =
     Inr (summary_text (int (length (coords p))) (hd (coords p)) (last (coords p))
            (Min (fst ` set (coords p))) (Max (fst ` set (coords p)))
            (Min (snd ` set (coords p))) (Max (snd ` set (coords p))))"
  by (simp add: summary_def py_index_first py_index_last py_min_nonempty py_max_nonempty N_def)

lemma length_py_range: "length (py_range n) = nat n"
  by (simp add: py_range_def)

lemma nth_py_range: "k < nat n \<Longrightarrow> py_range n ! k = int k"
  by (simp add: py_range_def nth_upto)

lemma distinct_chain: "distinct (map (\<lambda>i. (i, 0::int)) (py_range n))"
  by (simp add: py_range_def distinct_map inj_on_def)

lemma nth_chain:
  "k < nat n \<Longrightarrow> map (\<lambda>i. (i, 0::int)) (py_range n) ! k = (int k, 0)"
  by (simp add: length_py_range nth_py_range)

lemma chain_bonds_unit:
  assumes "Suc k < nat n"
  shows "manhattan (map (\<lambda>i. (i, 0::int)) (py_range n) ! k)
           (map (\<lambda>i. (i, 0::int)) (py_range n) ! Suc k) = 1"
proof -
  from assms have "k < nat n" by simp
  then have a: "map (\<lambda>i. (i, 0::int)) (py_range n) ! k = (int k, 0)"
    by (rule nth_chain)
  from assms have b: "map (\<lambda>i. (i, 0::int)) (py_range n) ! Suc k = (int (Suc k), 0)"
    by (rule nth_chain)
  show ?thesis
    unfolding a b by (simp add: manhattan_def)
qed

lemma validate_chain: "validate \<lparr>coords = map (\<lambda>i. (i, 0)) (py_range n)\<rparr> = Inr ()"
proof -
  let ?cs = "map (\<lambda>i. (i, 0::int)) (py_range n)"
  have "\<forall>k. Suc k < length ?cs \<longrightarrow> manhattan (?cs ! k) (?cs ! Suc k) = 1"
    using chain_bonds_unit [of _ n] by (simp add: length_py_range del: nth_map)
  then show ?thesis
    using distinct_chain [of n] by (simp add: validate_ok_iff_aux del: nth_map)
qed

lemma straight_chain_eq:
  "straight_chain n = Inr \<lparr>coords = map (\<lambda>i. (i, 0)) (py_range n)\<rparr>"
  by (simp add: straight_chain_def validate_chain)

lemma validate_short: "length (coords p) < 2 \<Longrightarrow> validate p = Inr ()"
proof -
  assume l: "length (coords p) < 2"
  then have "distinct (coords p)"
    by (cases "coords p") (auto simp: length_Suc_conv)
  with l show ?thesis
    by (simp add: validate_ok_iff_aux)
qed

lemma take_upto: "0 \<le> k \<Longrightarrow> take (nat k) [i..j] = [i..min j (i + k - 1)]"
  by (rule nth_equalityI) (auto simp: nth_upto min_def split: if_splits)

lemma chain_min_max:
  assumes "1 \<le> n"
  shows "Min (fst ` set (map (\<lambda>i. (i, 0::int)) (py_range n))) = 0"
    and "Max (fst ` set (map (\<lambda>i. (i, 0::int)) (py_range n))) = n - 1"
    and "Min (snd ` set (map (\<lambda>i. (i, 0::int)) (py_range n))) = 0"
    and "Max (snd ` set (map (\<lambda>i. (i, 0::int)) (py_range n))) = 0"
proof -
  have f: "fst ` set (map (\<lambda>i. (i, 0::int)) (py_range n)) = {0..n - 1}"
    by (simp add: set_py_range image_image)
  have s: "snd ` set (map (\<lambda>i. (i, 0::int)) (py_range n)) = {0}"
    using assms by (simp add: set_py_range image_image image_constant_conv)
  show "Min (fst ` set (map (\<lambda>i. (i, 0::int)) (py_range n))) = 0"
    unfolding f using assms by (intro Min_eqI) auto
  show "Max (fst ` set (map (\<lambda>i. (i, 0::int)) (py_range n))) = n - 1"
    unfolding f using assms by (intro Max_eqI) auto
  show "Min (snd ` set (map (\<lambda>i. (i, 0::int)) (py_range n))) = 0"
    unfolding s by simp
  show "Max (snd ` set (map (\<lambda>i. (i, 0::int)) (py_range n))) = 0"
    unfolding s by simp
qed

lemma summary_chain:
  assumes "1 \<le> n"
  shows "summary \<lparr>coords = map (\<lambda>i. (i, 0)) (py_range n)\<rparr> =
           Inr (summary_text n (0, 0) (n - 1, 0) 0 (n - 1) 0 0)"
proof -
  let ?cs = "map (\<lambda>i. (i, 0::int)) (py_range n)"
  have ne: "?cs \<noteq> []"
    using assms by (simp add: py_range_def upto_rec1 [of 0])
  have l: "length ?cs = nat n" by (simp add: length_py_range)
  have h: "hd ?cs = (0, 0)"
    using assms nth_chain [of 0 n] ne by (simp add: hd_conv_nth)
  have t: "last ?cs = (n - 1, 0)"
    using assms nth_chain [of "nat n - 1" n] ne by (simp add: last_conv_nth l del: length_map)
  have c: "coords \<lparr>coords = ?cs\<rparr> = ?cs" by simp
  have "coords \<lparr>coords = ?cs\<rparr> \<noteq> []"
    unfolding c by (rule ne)
  from summary_nonempty [OF this] show ?thesis
    unfolding c h t l chain_min_max [OF assms] using assms by simp
qed

lemma neighbors_set: "set (neighbors_2d p) = {q. manhattan p q = 1}"
  by (cases p) (auto simp: neighbors_2d_def manhattan_def)

lemma bonds_chain:
  "bonds \<lparr>coords = map (\<lambda>i. (i, 0)) (py_range n)\<rparr> = map (\<lambda>i. (i, i + 1)) [0..n - 2]"
proof (cases "0 \<le> n")
  case True
  then show ?thesis
    by (simp add: bonds_def N_def length_py_range) (simp add: py_range_def)
next
  case False
  then show ?thesis
    by (simp add: bonds_def N_def length_py_range) (simp add: py_range_def)
qed

lemma main_nonpositive: "n \<le> 0 \<Longrightarrow> main n = ([header], Inl IndexError)"
  by (simp add: main_def straight_chain_eq summary_empty py_range_def)

section \<open>The validator\<close>

text \<open>
  Claim C1. \<open>validate\<close> returns normally exactly when the polymer is a legal
  self-avoiding walk: the coordinates are pairwise distinct and every consecutive pair is
  at Manhattan distance 1. Otherwise it raises a \<open>ValueError\<close> with one of its two
  messages: the overlap message, or the bond message of some consecutive pair.
\<close>

theorem validate_ok_iff_legal_walk:
  "(validate p = Inr () \<longleftrightarrow>
      distinct (coords p) \<and>
      (\<forall>k. Suc k < length (coords p) \<longrightarrow>
           manhattan (coords p ! k) (coords p ! Suc k) = 1)) \<and>
   (validate p \<noteq> Inr () \<longrightarrow>
      validate p = Inl (ValueError overlap_msg) \<or>
      (\<exists>k. Suc k < length (coords p) \<and>
           validate p =
             Inl (ValueError
                    (bond_msg (int k) (int k + 1) (coords p ! k) (coords p ! Suc k)))))"
proof (intro conjI impI)
  show "validate p = Inr () \<longleftrightarrow>
      distinct (coords p) \<and>
      (\<forall>k. Suc k < length (coords p) \<longrightarrow>
           manhattan (coords p ! k) (coords p ! Suc k) = 1)"
    by (rule validate_ok_iff_aux)
next
  assume fails: "validate p \<noteq> Inr ()"
  show "validate p = Inl (ValueError overlap_msg) \<or>
      (\<exists>k. Suc k < length (coords p) \<and>
           validate p =
             Inl (ValueError
                    (bond_msg (int k) (int k + 1) (coords p ! k) (coords p ! Suc k))))"
  proof (cases "distinct (coords p)")
    case False
    then show ?thesis by (simp add: validate_overlap)
  next
    case True
    with fails obtain k where k: "Suc k < length (coords p)"
      and bad: "manhattan (coords p ! k) (coords p ! Suc k) \<noteq> 1"
      by (auto simp: validate_ok_iff_aux)
    from first_bad_exists [OF k bad] obtain i where i: "i \<le> k"
      "manhattan (coords p ! i) (coords p ! Suc i) \<noteq> 1"
      "\<forall>j<i. manhattan (coords p ! j) (coords p ! Suc j) = 1"
      by blast
    from i(1) k have "Suc i < length (coords p)" by simp
    from validate_first_bad [OF True this i(2) i(3)] this show ?thesis
      by blast
  qed
qed

text \<open>A closed square of four sites passes; the chain with a step of length 2 does not.\<close>

theorem validate_ok_iff_legal_walk_witness:
  "validate \<lparr>coords = [(0, 0), (1, 0), (1, 1), (0, 1)]\<rparr> = Inr () \<and>
   distinct [(0, 0), (1, 0), (1, 1), (0, 1 :: int) :: Pos2D] \<and>
   validate \<lparr>coords = [(0, 0), (1, 0), (3, 0)]\<rparr> \<noteq> Inr () \<and>
   manhattan (1, 0) (3, 0) = 2"
  using validate_ok_iff_legal_walk [of "\<lparr>coords = [(0, 0), (1, 0), (1, 1), (0, 1)]\<rparr>"]
    validate_ok_iff_legal_walk [of "\<lparr>coords = [(0, 0), (1, 0), (3, 0)]\<rparr>"]
  by (simp add: nth_Cons' manhattan_def less_Suc_eq)

text \<open>
  Claim C2. For every coordinate sequence that holds a position twice, \<open>validate\<close>
  raises the overlap error and never a bond error, whatever the bonds are: the
  self-avoidance check comes first.
\<close>

theorem duplicate_reports_overlap:
  "\<not> distinct (coords p) \<Longrightarrow>
   validate p = Inl (ValueError overlap_msg) \<and>
   (\<forall>i j a b. validate p \<noteq> Inl (ValueError (bond_msg i j a b)))"
  by (simp add: validate_overlap overlap_not_bond)

text \<open>The sequence \<open>[(0,0), (1,0), (1,0)]\<close> repeats a site and has a step of length 0;
  the overlap is what is reported.\<close>

theorem duplicate_reports_overlap_witness:
  "\<not> distinct [(0, 0), (1, 0), (1, 0 :: int) :: Pos2D] \<and>
   manhattan (1, 0) (1, 0) \<noteq> 1 \<and>
   validate \<lparr>coords = [(0, 0), (1, 0), (1, 0)]\<rparr> =
     Inl (ValueError ''Invalid polymer: overlap detected (not self-avoiding).'')"
  using duplicate_reports_overlap [of "\<lparr>coords = [(0, 0), (1, 0), (1, 0)]\<rparr>"]
  by (simp add: manhattan_def overlap_msg_def)

text \<open>
  Claim C3. For every coordinate sequence of distinct positions with a consecutive pair
  whose Manhattan distance is not 1, \<open>validate\<close> raises the bond error of the first
  such pair. The message is written out: it holds the index pair \<open>(i, i + 1)\<close> of that
  pair and the two coordinates \<open>coords[i]\<close> and \<open>coords[i + 1]\<close>.
\<close>

theorem broken_bond_reports_first_pair:
  assumes "distinct (coords p)"
    and "Suc k < length (coords p)"
    and "manhattan (coords p ! k) (coords p ! Suc k) \<noteq> 1"
  shows "\<exists>i\<le>k.
           manhattan (coords p ! i) (coords p ! Suc i) \<noteq> 1 \<and>
           (\<forall>j<i. manhattan (coords p ! j) (coords p ! Suc j) = 1) \<and>
           validate p =
             Inl (ValueError
                    (''Invalid polymer: broken bond at ('' @ str_int (int i) @ '','' @
                     str_int (int i + 1) @ ''). '' @
                     str_pair (coords p ! i) @ '' -> '' @ str_pair (coords p ! Suc i) @
                     '' (must be Manhattan distance 1)''))"
proof -
  from first_bad_exists [OF assms(2,3)] obtain i where i: "i \<le> k"
    "manhattan (coords p ! i) (coords p ! Suc i) \<noteq> 1"
    "\<forall>j<i. manhattan (coords p ! j) (coords p ! Suc j) = 1"
    by blast
  from i(1) assms(2) have "Suc i < length (coords p)" by simp
  from validate_first_bad [OF assms(1) this i(2) i(3)]
  have "validate p =
             Inl (ValueError
                    (''Invalid polymer: broken bond at ('' @ str_int (int i) @ '','' @
                     str_int (int i + 1) @ ''). '' @
                     str_pair (coords p ! i) @ '' -> '' @ str_pair (coords p ! Suc i) @
                     '' (must be Manhattan distance 1)''))"
    unfolding bond_msg_def .
  with i show ?thesis
    by blast
qed

text \<open>For \<open>[(0,0), (1,0), (3,0)]\<close> the reported index pair is \<open>(1,2)\<close>.\<close>

theorem broken_bond_reports_first_pair_witness:
  "distinct [(0, 0), (1, 0), (3, 0 :: int) :: Pos2D] \<and>
   manhattan (1, 0) (3, 0) \<noteq> 1 \<and>
   validate \<lparr>coords = [(0, 0), (1, 0), (3, 0)]\<rparr> =
     Inl (ValueError
       ''Invalid polymer: broken bond at (1,2). (1, 0) -> (3, 0) (must be Manhattan distance 1)'')"
proof -
  let ?p = "\<lparr>coords = [(0, 0), (1, 0), (3, 0)]\<rparr>"
  have d: "distinct (coords ?p)" by simp
  have k: "Suc 1 < length (coords ?p)" by simp
  have b: "manhattan (coords ?p ! 1) (coords ?p ! Suc 1) \<noteq> 1"
    by (simp add: manhattan_def)
  from broken_bond_reports_first_pair [OF d k b]
  obtain i where i: "i \<le> 1" "manhattan (coords ?p ! i) (coords ?p ! Suc i) \<noteq> 1"
    and v: "validate ?p =
      Inl (ValueError
             (''Invalid polymer: broken bond at ('' @ str_int (int i) @ '','' @
              str_int (int i + 1) @ ''). '' @
              str_pair (coords ?p ! i) @ '' -> '' @ str_pair (coords ?p ! Suc i) @
              '' (must be Manhattan distance 1)''))"
    by blast
  have "i \<noteq> 0"
  proof
    assume "i = 0"
    with i(2) show False by (simp add: manhattan_def)
  qed
  with i(1) have "i = 1" by simp
  have s: "str_int 1 = ''1''" "str_int 2 = ''2''" "str_pair (1, 0) = ''(1, 0)''"
    "str_pair (3, 0) = ''(3, 0)''"
    by (simp_all add: str_pair_def str_int_def str_nat.simps)
  show ?thesis
    using v by (simp add: \<open>i = 1\<close> manhattan_def s)
qed

section \<open>The initializer\<close>

text \<open>
  Claim C4. For every \<open>n \<ge> 1\<close>, \<open>straight_chain n\<close> returns a polymer of exactly
  \<open>n\<close> monomers with the coordinates \<open>(0,0), (1,0), ..., (n - 1,0)\<close>, and \<open>validate\<close>
  raises nothing on it.
\<close>

theorem straight_chain_valid:
  "1 \<le> n \<Longrightarrow>
   \<exists>p. straight_chain n = Inr p \<and>
       N p = n \<and>
       coords p = map (\<lambda>i. (i, 0)) [0..n - 1] \<and>
       (\<forall>k<nat n. coords p ! k = (int k, 0)) \<and>
       validate p = Inr ()"
proof -
  assume n: "1 \<le> n"
  let ?p = "\<lparr>coords = map (\<lambda>i. (i, 0::int)) (py_range n)\<rparr>"
  have "straight_chain n = Inr ?p"
    by (rule straight_chain_eq)
  moreover have "N ?p = n"
    using n by (simp add: N_def length_py_range)
  moreover have "coords ?p = map (\<lambda>i. (i, 0)) [0..n - 1]"
    by (simp add: py_range_def)
  moreover have "\<forall>k<nat n. coords ?p ! k = (int k, 0)"
    using nth_chain [of _ n] by (simp del: nth_map)
  moreover have "validate ?p = Inr ()"
    by (rule validate_chain)
  ultimately show ?thesis by blast
qed

text \<open>The chain of three monomers.\<close>

theorem straight_chain_valid_witness:
  "(1::int) \<le> 3 \<and>
   straight_chain 3 = Inr \<lparr>coords = [(0, 0), (1, 0), (2, 0)]\<rparr> \<and>
   N \<lparr>coords = [(0, 0), (1, 0), (2, 0)]\<rparr> = 3 \<and>
   validate \<lparr>coords = [(0, 0), (1, 0), (2, 0)]\<rparr> = Inr ()"
proof -
  have h: "(1::int) \<le> 3" by simp
  have u: "[0..(2::int)] = [0, 1, 2]" by (simp add: upto_rec1)
  from straight_chain_valid [OF h] obtain p where
    "straight_chain 3 = Inr p" "N p = 3" "coords p = map (\<lambda>i. (i, 0)) [0..3 - 1]"
    "validate p = Inr ()"
    by blast
  moreover from this(3) have "p = \<lparr>coords = [(0, 0), (1, 0), (2, 0)]\<rparr>"
    by (cases p) (simp add: u)
  ultimately show ?thesis using h by simp
qed

text \<open>
  Claim C5. For every \<open>n \<le> 0\<close>, \<open>straight_chain n\<close> returns without an error: it
  does not reject the argument, and the chain it returns is the empty one.
\<close>

theorem straight_chain_nonpositive:
  "n \<le> 0 \<Longrightarrow> straight_chain n = Inr \<lparr>coords = []\<rparr> \<and> N \<lparr>coords = []\<rparr> = 0"
  by (simp add: straight_chain_eq py_range_def N_def)

text \<open>At \<open>-3\<close> and at \<open>0\<close>.\<close>

theorem straight_chain_nonpositive_witness:
  "(- 3 :: int) \<le> 0 \<and> straight_chain (- 3) = Inr \<lparr>coords = []\<rparr> \<and>
   (0 :: int) \<le> 0 \<and> straight_chain 0 = Inr \<lparr>coords = []\<rparr>"
  using straight_chain_nonpositive [of "- 3"] straight_chain_nonpositive [of 0]
  by simp

section \<open>The summary\<close>

text \<open>
  Claim C7. \<open>summary\<close> raises whenever the coordinate sequence is empty, and returns
  its text whenever there is at least one monomer. On the empty sequence the error is the
  \<open>IndexError\<close> of \<open>self.coords[0]\<close>, which the f-string reads before any \<open>min\<close>.
\<close>

theorem summary_defined_iff_nonempty:
  "(coords p = [] \<longrightarrow> summary p = Inl IndexError) \<and>
   (coords p \<noteq> [] \<longrightarrow> (\<exists>s. summary p = Inr s))"
  by (simp add: summary_empty summary_nonempty)

text \<open>The empty polymer and a polymer of one monomer.\<close>

theorem summary_defined_iff_nonempty_witness:
  "summary \<lparr>coords = []\<rparr> = Inl IndexError \<and>
   summary \<lparr>coords = [(2, 3)]\<rparr> \<noteq> Inl IndexError"
  using summary_defined_iff_nonempty [of "\<lparr>coords = []\<rparr>"]
    summary_defined_iff_nonempty [of "\<lparr>coords = [(2, 3)]\<rparr>"]
  by auto

text \<open>
  Claim C8. For every non-empty polymer, the text of \<open>summary\<close>, written out line by
  line, gives the number of monomers, the first and the last coordinate, and the least
  and greatest \<open>x\<close> and \<open>y\<close> over all monomers. For \<open>straight_chain 5\<close> these are
  5, \<open>(0,0)\<close>, \<open>(4,0)\<close>, the \<open>x\<close> range \<open>[0, 4]\<close> and the \<open>y\<close> range \<open>[0, 0]\<close>.
\<close>

theorem summary_reports:
  "(coords p \<noteq> [] \<longrightarrow>
      summary p =
        Inr (''N = '' @ str_int (int (length (coords p))) @ [CHR 0x0A] @
             ''First monomer: '' @ str_pair (hd (coords p)) @ [CHR 0x0A] @
             ''Last monomer : '' @ str_pair (last (coords p)) @ [CHR 0x0A] @
             ''x range: ['' @ str_int (Min (fst ` set (coords p))) @ '', '' @
               str_int (Max (fst ` set (coords p))) @ '']'' @ [CHR 0x0A] @
             ''y range: ['' @ str_int (Min (snd ` set (coords p))) @ '', '' @
               str_int (Max (snd ` set (coords p))) @ '']'' @ [CHR 0x0A])) \<and>
   (\<exists>q. straight_chain 5 = Inr q \<and>
        summary q =
          Inr (''N = 5'' @ [CHR 0x0A] @
               ''First monomer: (0, 0)'' @ [CHR 0x0A] @
               ''Last monomer : (4, 0)'' @ [CHR 0x0A] @
               ''x range: [0, 4]'' @ [CHR 0x0A] @
               ''y range: [0, 0]'' @ [CHR 0x0A]))"
proof (intro conjI impI)
  assume "coords p \<noteq> []"
  then have "summary p =
        Inr (summary_text (int (length (coords p))) (hd (coords p)) (last (coords p))
               (Min (fst ` set (coords p))) (Max (fst ` set (coords p)))
               (Min (snd ` set (coords p))) (Max (snd ` set (coords p))))"
    by (rule summary_nonempty)
  then show "summary p =
        Inr (''N = '' @ str_int (int (length (coords p))) @ [CHR 0x0A] @
             ''First monomer: '' @ str_pair (hd (coords p)) @ [CHR 0x0A] @
             ''Last monomer : '' @ str_pair (last (coords p)) @ [CHR 0x0A] @
             ''x range: ['' @ str_int (Min (fst ` set (coords p))) @ '', '' @
               str_int (Max (fst ` set (coords p))) @ '']'' @ [CHR 0x0A] @
             ''y range: ['' @ str_int (Min (snd ` set (coords p))) @ '', '' @
               str_int (Max (snd ` set (coords p))) @ '']'' @ [CHR 0x0A])"
    unfolding summary_text_def nl_def .
next
  have "summary \<lparr>coords = map (\<lambda>i. (i, 0)) (py_range 5)\<rparr> =
          Inr (summary_text 5 (0, 0) (5 - 1, 0) 0 (5 - 1) 0 0)"
    by (rule summary_chain) simp
  moreover have "summary_text 5 (0, 0) (5 - 1, 0) 0 (5 - 1) 0 0 =
     ''N = 5'' @ [CHR 0x0A] @ ''First monomer: (0, 0)'' @ [CHR 0x0A] @
     ''Last monomer : (4, 0)'' @ [CHR 0x0A] @
     ''x range: [0, 4]'' @ [CHR 0x0A] @ ''y range: [0, 0]'' @ [CHR 0x0A]"
    by (simp add: summary_text_def nl_def str_pair_def str_int_def str_nat.simps)
  ultimately show "\<exists>q. straight_chain 5 = Inr q \<and>
        summary q =
          Inr (''N = 5'' @ [CHR 0x0A] @
               ''First monomer: (0, 0)'' @ [CHR 0x0A] @
               ''Last monomer : (4, 0)'' @ [CHR 0x0A] @
               ''x range: [0, 4]'' @ [CHR 0x0A] @
               ''y range: [0, 0]'' @ [CHR 0x0A])"
    by (simp add: straight_chain_eq)
qed

text \<open>A bent polymer of three monomers, with a negative coordinate.\<close>

theorem summary_reports_witness:
  "summary \<lparr>coords = [(0, 0), (0, 1), (- 1, 1)]\<rparr> =
     Inr (''N = 3'' @ [CHR 0x0A] @ ''First monomer: (0, 0)'' @ [CHR 0x0A] @
          ''Last monomer : (-1, 1)'' @ [CHR 0x0A] @
          ''x range: [-1, 0]'' @ [CHR 0x0A] @ ''y range: [0, 1]'' @ [CHR 0x0A])"
  using summary_reports [of "\<lparr>coords = [(0, 0), (0, 1), (- 1, 1)]\<rparr>"]
  by (simp add: str_pair_def str_int_def str_nat.simps)

section \<open>The neighbours of a site\<close>

text \<open>
  Claim C9. For every lattice point \<open>(x, y)\<close>, \<open>neighbors_2d\<close> returns exactly four
  coordinates, in the order \<open>(x + 1, y)\<close>, \<open>(x - 1, y)\<close>, \<open>(x, y + 1)\<close>,
  \<open>(x, y - 1)\<close>; each is at Manhattan distance 1 from the point, and they are all the
  points at that distance.
\<close>

theorem neighbors_2d_four:
  "neighbors_2d (x, y) = [(x + 1, y), (x - 1, y), (x, y + 1), (x, y - 1)] \<and>
   length (neighbors_2d (x, y)) = 4 \<and>
   distinct (neighbors_2d (x, y)) \<and>
   (\<forall>q\<in>set (neighbors_2d (x, y)). manhattan (x, y) q = 1) \<and>
   set (neighbors_2d (x, y)) = {q. manhattan (x, y) q = 1}"
  by (simp add: neighbors_set) (simp add: neighbors_2d_def manhattan_def)

text \<open>The neighbours of the origin.\<close>

theorem neighbors_2d_four_witness:
  "neighbors_2d (0, 0) = [(1, 0), (- 1, 0), (0, 1), (0, - 1)] \<and>
   manhattan (0, 0) (1, 0) = 1 \<and> manhattan (0, 0) (- 1, 0) = 1 \<and>
   manhattan (0, 0) (0, 1) = 1 \<and> manhattan (0, 0) (0, - 1) = 1"
  using neighbors_2d_four [of 0 0]
  by simp

section \<open>Polymers of fewer than two monomers\<close>

text \<open>
  Claim C10. \<open>validate\<close> raises nothing on a polymer of fewer than two monomers: the
  empty polymer and every polymer of one monomer pass, although \<open>summary\<close> raises on
  the empty one.
\<close>

theorem validate_short_polymer:
  "(length (coords p) < 2 \<longrightarrow> validate p = Inr ()) \<and>
   validate \<lparr>coords = []\<rparr> = Inr () \<and>
   summary \<lparr>coords = []\<rparr> = Inl IndexError"
  by (simp add: validate_short summary_empty)

text \<open>A polymer of one monomer, and the empty one.\<close>

theorem validate_short_polymer_witness:
  "validate \<lparr>coords = [(7, - 2)]\<rparr> = Inr () \<and> validate \<lparr>coords = []\<rparr> = Inr ()"
  using validate_short_polymer [of "\<lparr>coords = [(7, - 2)]\<rparr>"]
  by simp

section \<open>The entry point\<close>

text \<open>
  Claim C6, as the program has it. For every \<open>n \<ge> 1\<close>, the bond line that \<open>main\<close>
  prints shows the first bonds of the chain, ten at most (the index pairs \<open>(i, i + 1)\<close>
  for \<open>i\<close> from 0 to \<open>min 9 (n - 2)\<close>), and the marker \<open>...\<close> follows exactly when
  the chain has more than 10 bonds, that is when \<open>n > 11\<close>.
\<close>

theorem main_bond_preview:
  "1 \<le> n \<Longrightarrow>
   \<exists>p. straight_chain n = Inr p \<and>
       main n =
         ([header,
           summary_text n (0, 0) (n - 1, 0) 0 (n - 1) 0 0,
           py_print [''Bonds (index pairs):'',
                     str_pairs (take 10 (bonds p)),
                     if 10 < length (bonds p) then ''...'' else ''''],
           ''Validation: OK ''],
          Inr ()) \<and>
       take 10 (bonds p) = map (\<lambda>i. (i, i + 1)) [0..min 9 (n - 2)] \<and>
       length (bonds p) = nat (n - 1) \<and>
       (10 < length (bonds p) \<longleftrightarrow> 11 < n)"
proof -
  assume n: "1 \<le> n"
  let ?p = "\<lparr>coords = map (\<lambda>i. (i, 0::int)) (py_range n)\<rparr>"
  have sc: "straight_chain n = Inr ?p"
    by (rule straight_chain_eq)
  have Np: "N ?p = n"
    using n by (simp add: N_def length_py_range)
  have b: "bonds ?p = map (\<lambda>i. (i, i + 1)) [0..n - 2]"
    by (rule bonds_chain)
  have len: "length (bonds ?p) = nat (n - 1)"
    unfolding b using n by simp
  have ell: "10 < length (bonds ?p) \<longleftrightarrow> 11 < n"
    unfolding len by linarith
  have "take (nat 10) [0..n - 2] = [0..min (n - 2) (0 + 10 - 1)]"
    by (rule take_upto) simp
  then have tk: "take 10 (bonds ?p) = map (\<lambda>i. (i, i + 1)) [0..min 9 (n - 2)]"
    unfolding b by (simp add: take_map min.commute)
  have m: "main n =
         ([header,
           summary_text n (0, 0) (n - 1, 0) 0 (n - 1) 0 0,
           py_print [''Bonds (index pairs):'',
                     str_pairs (take 10 (bonds ?p)),
                     if 10 < length (bonds ?p) then ''...'' else ''''],
           ''Validation: OK ''],
          Inr ())"
    unfolding main_def sc ell using summary_chain [OF n] Np by simp
  from sc m tk len ell show ?thesis by blast
qed

text \<open>The default run, \<open>n = 20\<close>: ten of the 19 bonds, then the marker.\<close>

theorem main_bond_preview_witness:
  "(1::int) \<le> 20 \<and>
   main 20 =
     ([header,
       summary_text 20 (0, 0) (19, 0) 0 19 0 0,
       ''Bonds (index pairs): [(0, 1), (1, 2), (2, 3), (3, 4), (4, 5), (5, 6), (6, 7), (7, 8), (8, 9), (9, 10)] ...'',
       ''Validation: OK ''],
      Inr ())"
proof -
  have h: "(1::int) \<le> 20" by simp
  from main_bond_preview [OF h] obtain p where
    m: "main 20 =
         ([header,
           summary_text 20 (0, 0) (20 - 1, 0) 0 (20 - 1) 0 0,
           py_print [''Bonds (index pairs):'',
                     str_pairs (take 10 (bonds p)),
                     if 10 < length (bonds p) then ''...'' else ''''],
           ''Validation: OK ''],
          Inr ())"
    and tk: "take 10 (bonds p) = map (\<lambda>i. (i, i + 1)) [0..min 9 (20 - 2)]"
    and ell: "10 < length (bonds p) \<longleftrightarrow> 11 < (20::int)"
    by blast
  have u: "[0..(9::int)] = [0, 1, 2, 3, 4, 5, 6, 7, 8, 9]"
    by (simp add: upto_rec1)
  have line: "py_print [''Bonds (index pairs):'',
                 str_pairs (map (\<lambda>i. (i, i + 1)) [0, 1, 2, 3, 4, 5, 6, 7, 8, 9]), ''...''] =
    ''Bonds (index pairs): [(0, 1), (1, 2), (2, 3), (3, 4), (4, 5), (5, 6), (6, 7), (7, 8), (8, 9), (9, 10)] ...''"
    by (simp add: py_print_def str_pairs_def str_pair_def str_int_def str_nat.simps)
  from ell have e: "10 < length (bonds p)" by simp
  show ?thesis
    unfolding m tk using h e line by (simp add: u)
qed

text \<open>
  With \<open>n = 12\<close> the chain has 11 bonds, which is not more than 11, and the marker is
  printed all the same: ten bonds are shown and one is left out.
\<close>

theorem main_ellipsis_counterexample:
  "fst (main 12) ! 2 =
     ''Bonds (index pairs): [(0, 1), (1, 2), (2, 3), (3, 4), (4, 5), (5, 6), (6, 7), (7, 8), (8, 9), (9, 10)] ...'' \<and>
   straight_chain 12 =
     Inr \<lparr>coords = [(0, 0), (1, 0), (2, 0), (3, 0), (4, 0), (5, 0), (6, 0), (7, 0),
                     (8, 0), (9, 0), (10, 0), (11, 0)]\<rparr> \<and>
   length (bonds \<lparr>coords = [(0, 0), (1, 0), (2, 0), (3, 0), (4, 0), (5, 0), (6, 0), (7, 0),
                     (8, 0), (9, 0), (10, 0), (11, 0)]\<rparr>) = 11 \<and>
   \<not> 11 < length (bonds \<lparr>coords = [(0, 0), (1, 0), (2, 0), (3, 0), (4, 0), (5, 0), (6, 0), (7, 0),
                     (8, 0), (9, 0), (10, 0), (11, 0)]\<rparr>)"
proof (intro conjI)
  show "fst (main 12) ! 2 =
     ''Bonds (index pairs): [(0, 1), (1, 2), (2, 3), (3, 4), (4, 5), (5, 6), (6, 7), (7, 8), (8, 9), (9, 10)] ...''"
    by code_simp
  show "straight_chain 12 =
     Inr \<lparr>coords = [(0, 0), (1, 0), (2, 0), (3, 0), (4, 0), (5, 0), (6, 0), (7, 0),
                     (8, 0), (9, 0), (10, 0), (11, 0)]\<rparr>"
    by (simp add: straight_chain_eq py_range_def upto_rec1)
  show "length (bonds \<lparr>coords = [(0, 0), (1, 0), (2, 0), (3, 0), (4, 0), (5, 0), (6, 0), (7, 0),
                     (8, 0), (9, 0), (10, 0), (11, 0)]\<rparr>) = 11"
    by (simp add: bonds_def N_def py_range_def)
  show "\<not> 11 < length (bonds \<lparr>coords = [(0, 0), (1, 0), (2, 0), (3, 0), (4, 0), (5, 0), (6, 0), (7, 0),
                     (8, 0), (9, 0), (10, 0), (11, 0)]\<rparr>)"
    by (simp add: bonds_def N_def py_range_def)
qed

end
